theory Spec2Isabelle
  imports Main
begin

section \<open>JavaScript values used by the group topic pages\<close>

text \<open>
  Strings are byte lists (\<open>string\<close>); the Chinese literals of the source are written as
  their UTF-8 bytes. A value of type \<open>string | undefined\<close> is a \<open>string option\<close>, with
  \<open>None\<close> for \<open>undefined\<close>. Identifiers are integral numbers, modelled as \<open>int\<close>; a
  template literal prints them in decimal, with a leading minus sign when negative.
\<close>

fun digit_char :: "nat \<Rightarrow> char" where
  "digit_char d = char_of (48 + d)"

function decimal :: "nat \<Rightarrow> string" where
  "decimal n = (if n < 10 then [digit_char n] else decimal (n div 10) @ [digit_char (n mod 10)])"
  by pat_completeness auto
termination
  by (relation "measure (\<lambda>n. n)") auto

declare decimal.simps [simp del]

definition number_toString :: "int \<Rightarrow> string" where
  \<comment> \<open>What \<open>`${n}`\<close> yields for an integral number \<open>n\<close>.\<close>
  "number_toString i = (if i < 0 then CHR ''-'' # decimal (nat (- i)) else decimal (nat i))"

definition truthy :: "string option \<Rightarrow> bool" where
  \<comment> \<open>JavaScript truthiness of a \<open>string | undefined\<close>: \<open>undefined\<close> and \<open>''\<close> are falsy.\<close>
  "truthy v = (case v of None \<Rightarrow> False | Some s \<Rightarrow> s \<noteq> [])"

datatype error = Error string

section \<open>TopicForm.tsx: data\<close>

text \<open>
  \<open>FormData\<close> is the interface of the source. It is the type of the form state kept by
  \<open>useForm\<close>, of the snapshot handed to \<open>onSubmit\<close> and of the body of both write
  operations. An unset title or text is the empty string (the input shows both alike and
  \<open>required\<close> rejects both alike); \<open>cf-turnstile-response\<close> is unset (\<open>None\<close>) until
  \<open>setValue\<close> stores a token, since \<open>defaultValues\<close> does not mention it.
\<close>

record FormData =
  title :: string
  text' :: string
  cf_turnstile_response :: "string option"

text \<open>
  \<open>TopicDetail\<close> comes from the API client; the form reads its \<open>id\<close>, \<open>title\<close> and
  \<open>text\<close>. Every other field lives in the extension slot of the record scheme, which
  the object spread \<open>{...topic.data, title, text}\<close> copies unchanged.
\<close>

record TopicDetail =
  topic_id :: int
  topic_title :: string
  topic_text :: string

text \<open>
  The props. \<open>quickPost\<close> has its default applied. \<open>topic\<close> carries the topic data; its
  \<open>mutate\<close> callback belongs to the caller, so a call of it is recorded as an effect.
\<close>

record 'a TopicFormProps =
  quickPost :: bool
  groupName :: "string option"
  topic :: "'a TopicDetail_scheme option"

text \<open>
  A response of a write operation: \<open>response.status\<close>, \<open>response.data.id\<close> (read on
  status 200 of the create operation) and \<open>response.data.message\<close> (read otherwise).
\<close>

record resp_data =
  id' :: int
  message :: string

record response =
  status :: int
  data :: resp_data

text \<open>The effects the form has on its collaborators, in the order they happen.\<close>

datatype 'a event =
    CreateNewGroupTopic string FormData
  | EditGroupTopic int FormData
  | Navigate string
  | Toast "string option"
  | ConsoleError response
  | Mutate "'a TopicDetail_scheme"

text \<open>
  The state of a mounted form: the \<open>sending\<close> flag of \<open>useState\<close>, the form state of
  \<open>useForm\<close>, and the effects so far.
\<close>

record 'a world =
  sending :: bool
  form :: FormData
  effects :: "'a event list"

text \<open>
  The collaborators whose answers the form awaits: the verification challenge
  (\<open>execute\<close> of \<open>useTurnstile\<close>) and the two write operations of \<open>ozaClient\<close>. Each
  either throws (\<open>Inl\<close>) or resolves (\<open>Inr\<close>).
\<close>

record env =
  execute :: "error + string option"
  createNewGroupTopic :: "string \<Rightarrow> FormData \<Rightarrow> error + response"
  editGroupTopic :: "int \<Rightarrow> FormData \<Rightarrow> error + response"

section \<open>TopicForm.tsx: operations\<close>

definition emit :: "'a event \<Rightarrow> 'a world \<Rightarrow> 'a world" where
  "emit e w = w\<lparr>effects := effects w @ [e]\<rparr>"

definition navigate :: "string \<Rightarrow> 'a world \<Rightarrow> 'a world" where
  "navigate url w = emit (Navigate url) w"

definition toast :: "string option \<Rightarrow> 'a world \<Rightarrow> 'a world" where
  "toast m w = emit (Toast m) w"

definition setSending :: "bool \<Rightarrow> 'a world \<Rightarrow> 'a world" where
  "setSending b w = w\<lparr>sending := b\<rparr>"

definition setValue_token :: "string \<Rightarrow> 'a world \<Rightarrow> 'a world" where
  \<comment> \<open>\<open>setValue('cf-turnstile-response', token)\<close>: writes the form state.\<close>
  "setValue_token tok w = w\<lparr>form := (form w)\<lparr>cf_turnstile_response := Some tok\<rparr>\<rparr>"

text \<open>
  An asynchronous function returns the state it leaves behind together with the error it
  threw, if any (\<open>None\<close>: it completed).
\<close>

definition postNewTopic ::
  "env \<Rightarrow> FormData \<Rightarrow> string \<Rightarrow> 'a world \<Rightarrow> error option \<times> 'a world" where
  "postNewTopic E d gn w =
     (let body = \<lparr>title = title d, text' = text' d,
                   cf_turnstile_response = cf_turnstile_response d\<rparr>;
          w1 = emit (CreateNewGroupTopic gn body) w
      in case createNewGroupTopic E gn body of
           Inl e \<Rightarrow> (Some e, w1)
         | Inr r \<Rightarrow>
             if status r = 200
             then (None, navigate (''/group/topic/'' @ number_toString (id' (data r))) w1)
             else (None, toast (Some (message (data r))) (emit (ConsoleError r) w1)))"

definition editTopic ::
  "env \<Rightarrow> 'a TopicFormProps \<Rightarrow> FormData \<Rightarrow> int \<Rightarrow> 'a world \<Rightarrow> error option \<times> 'a world" where
  "editTopic E p d i w =
     (let body = \<lparr>title = title d, text' = text' d,
                   cf_turnstile_response = cf_turnstile_response d\<rparr>;
          w1 = emit (EditGroupTopic i body) w
      in case editGroupTopic E i body of
           Inl e \<Rightarrow> (Some e, w1)
         | Inr r \<Rightarrow>
             if status r = 200
             then (None,
                   navigate (''/group/topic/'' @ number_toString i)
                     (case topic p of
                        None \<Rightarrow> w1
                      | Some t \<Rightarrow> emit (Mutate (t\<lparr>topic_title := title d, topic_text := text' d\<rparr>)) w1))
             else (None, toast (Some (message (data r))) (emit (ConsoleError r) w1)))"

definition onSubmit ::
  "env \<Rightarrow> 'a TopicFormProps \<Rightarrow> FormData \<Rightarrow> 'a world \<Rightarrow> error option \<times> 'a world" where
  "onSubmit E p d w =
     (let w1 = setSending True w
      in case execute E of
           Inl e \<Rightarrow> (Some e, w1)
         | Inr token \<Rightarrow>
             (case (if truthy token
                    then (let w2 = (case token of None \<Rightarrow> w1 | Some tok \<Rightarrow> setValue_token tok w1)
                          in if truthy (groupName p)
                             then (case groupName p of
                                     None \<Rightarrow> (None, w2)
                                   | Some gn \<Rightarrow> postNewTopic E d gn w2)
                             else (case topic p of
                                     None \<Rightarrow> (None, w2)
                                   | Some t \<Rightarrow> editTopic E p d (topic_id t) w2))
                    else (None, w1)) of
                (Some e, w3) \<Rightarrow> (Some e, w3)
              | (None, w3) \<Rightarrow> (None, setSending False w3)))"

text \<open>
  The validation rules of the two fields, as \<open>register('title', {required: ...})\<close> and
  the \<open>Controller\<close> of \<open>text\<close> declare them.
\<close>

definition required_title :: string where
  "required_title = [CHR 0xE8, CHR 0xAF, CHR 0xB7, CHR 0xE5, CHR 0xA1, CHR 0xAB, CHR 0xE5, CHR 0x86,
     CHR 0x99, CHR 0xE6, CHR 0xA0, CHR 0x87, CHR 0xE9, CHR 0xA2, CHR 0x98]"

definition required_text :: string where
  "required_text = [CHR 0xE8, CHR 0xAF, CHR 0xB7, CHR 0xE5, CHR 0xA1, CHR 0xAB, CHR 0xE5, CHR 0x86,
     CHR 0x99, CHR 0xE6, CHR 0xAD, CHR 0xA3, CHR 0xE6, CHR 0x96, CHR 0x87, CHR 0xE5, CHR 0x86, CHR 0x85,
     CHR 0xE5, CHR 0xAE, CHR 0xB9]"

text \<open>
  The \<open>errors\<close> object handed to \<open>showErrors\<close>: field name and \<open>FieldError\<close>, of which
  only the optional \<open>message\<close> is read, in insertion order (the order of
  \<open>Object.values\<close>).
\<close>

type_synonym field_errors = "(string \<times> string option) list"

definition showErrors :: "field_errors \<Rightarrow> 'a world \<Rightarrow> 'a world" where
  \<comment> \<open>\<open>toast(Object.values(errors).map((field) => field.message)[0]!)\<close>\<close>
  "showErrors errors w =
     toast (case map snd errors of [] \<Rightarrow> None | m # _ \<Rightarrow> m) w"

text \<open>
  Modelled from the spec: \<open>handleSubmit\<close> and the \<open>required\<close> rule are react-hook-form's
  and are not among the sources. The spec (4.3, step 1): "Validate required fields (title,
  body) client-side; on failure, show the first validation error message and abort". A
  required field fails when it is empty; the fields are checked in the order the
  component registers them (title, then text); with no failure the handler receives a
  snapshot of the form state.
\<close>

definition required :: "string \<Rightarrow> string \<Rightarrow> string \<Rightarrow> field_errors" where
  "required name msg v = (if v = [] then [(name, Some msg)] else [])"

definition validate :: "FormData \<Rightarrow> field_errors" where
  "validate f = required ''title'' required_title (title f) @ required ''text'' required_text (text' f)"

definition handleSubmit :: "env \<Rightarrow> 'a TopicFormProps \<Rightarrow> 'a world \<Rightarrow> error option \<times> 'a world" where
  "handleSubmit E p w =
     (case validate (form w) of
        [] \<Rightarrow> onSubmit E p (form w) w
      | errs \<Rightarrow> (None, showErrors errs w))"

section \<open>TopicForm.tsx: the component\<close>

datatype style = quickPostForm | titleInput | contentEditor

text \<open>
  What the component renders: \<open>Input\<close> with its placeholder, registered name and
  required message; \<open>EditorForm\<close> (inside its \<open>Controller\<close>) with its name, required
  message, placeholder, \<open>confirmText\<close>, \<open>rows\<close> and field value.
\<close>

datatype view =
    Input string string string
  | EditorForm string string string "string option" "nat option" string
  | Form style "view list"
  | Div style "view list"
  | Fragment "view list"

definition placeholder_title_quick :: string where
  "placeholder_title_quick = [CHR 0xE7, CHR 0xBB, CHR 0x99, CHR 0xE6, CHR 0x96, CHR 0xB0, CHR 0xE5,
     CHR 0xB8, CHR 0x96, CHR 0xE5, CHR 0x8F, CHR 0x96, CHR 0xE4, CHR 0xB8, CHR 0x80, CHR 0xE4, CHR 0xB8,
     CHR 0xAA, CHR 0xE6, CHR 0xA0, CHR 0x87, CHR 0xE9, CHR 0xA2, CHR 0x98]"

definition placeholder_title_full :: string where
  "placeholder_title_full = [CHR 0xE5, CHR 0x8F, CHR 0x96, CHR 0xE4, CHR 0xB8, CHR 0xAA, CHR 0xE6,
     CHR 0xA0, CHR 0x87, CHR 0xE9, CHR 0xA2, CHR 0x98, CHR 0xE2, CHR 0x80, CHR 0xA6]"

definition placeholder_text_quick :: string where
  "placeholder_text_quick = [CHR 0xE6, CHR 0x83, CHR 0xB3, CHR 0xE8, CHR 0x81, CHR 0x8A, CHR 0xE7,
     CHR 0x82, CHR 0xB9, CHR 0xE4, CHR 0xBB, CHR 0x80, CHR 0xE4, CHR 0xB9, CHR 0x88, CHR 0xE7, CHR 0x9A,
     CHR 0x84, CHR 0xE5, CHR 0x91, CHR 0xA2, CHR 0xE2, CHR 0x80, CHR 0xA6]"

definition placeholder_text_full :: string where
  "placeholder_text_full = [CHR 0xE8, CHR 0xAF, CHR 0x9D, CHR 0xE9, CHR 0xA2, CHR 0x98, CHR 0xE6,
     CHR 0xAD, CHR 0xA3, CHR 0xE6, CHR 0x96, CHR 0x87, CHR 0xE2, CHR 0x80, CHR 0xA6]"

definition confirm_quick :: string where
  "confirm_quick = [CHR 0xE5, CHR 0xBF, CHR 0xAB, CHR 0xE9, CHR 0x80, CHR 0x9F, CHR 0xE5, CHR 0x8F,
     CHR 0x91, CHR 0xE5, CHR 0xB8, CHR 0x96]"

definition FormInput :: "bool \<Rightarrow> view" where
  "FormInput quick =
     Input (if quick then placeholder_title_quick else placeholder_title_full)
       ''title'' required_title"

definition FormEditor :: "bool \<Rightarrow> 'a world \<Rightarrow> view" where
  "FormEditor quick w =
     EditorForm ''text'' required_text
       (if quick then placeholder_text_quick else placeholder_text_full)
       (if sending w then Some ''...'' else if quick then Some confirm_quick else None)
       (if \<not> quick then Some 15 else None)
       (text' (form w))"

definition invalid_usage :: "'a TopicFormProps \<Rightarrow> bool" where
  \<comment> \<open>\<open>(!!groupName && !!topic) || (!groupName && !topic)\<close>\<close>
  "invalid_usage p =
     ((truthy (groupName p) \<and> topic p \<noteq> None) \<or> (\<not> truthy (groupName p) \<and> topic p = None))"

definition useForm :: "'a TopicFormProps \<Rightarrow> 'a world" where
  \<comment> \<open>The state on mount: \<open>defaultValues\<close> and \<open>useState(false)\<close>.\<close>
  "useForm p =
     \<lparr>sending = False,
      form = \<lparr>title = (case topic p of None \<Rightarrow> [] | Some t \<Rightarrow> topic_title t),
              text' = (case topic p of None \<Rightarrow> [] | Some t \<Rightarrow> topic_text t),
              cf_turnstile_response = None\<rparr>,
      effects = []\<rparr>"

definition TopicForm :: "'a TopicFormProps \<Rightarrow> 'a world \<Rightarrow> error + view" where
  "TopicForm p w =
     (if invalid_usage p
      then Inl (Error ''Invalid usage: should specify either groupName or topic'')
      else if quickPost p
           then Inr (Form quickPostForm [FormInput True, FormEditor True w])
           else Inr (Fragment [Div titleInput [FormInput False],
                               Div contentEditor [FormEditor False w]]))"

section \<open>useGroupPost: the thread data source\<close>

text \<open>
  \<open>Reply\<close> is the payload type of the API client; the hook never looks inside it, so it
  is a type parameter \<open>'r\<close>.
\<close>

definition useGroupPost_key :: "int \<Rightarrow> string" where
  \<comment> \<open>The first argument of \<open>useSWR\<close>: \<open>`/group/post/${id}`\<close>.\<close>
  "useGroupPost_key i = ''/group/post/'' @ number_toString i"

text \<open>
  Modelled from the spec: the cache behind \<open>useSWR\<close> and the mutator it returns are the
  SWR library's and are not among the sources. The spec (4.1) describes "a cache keyed by
  that identifier, exposing the cached value and a function to trigger/override a
  refresh", whose mutator "allows the caller to inject/merge a new value directly into
  the cache without a network round trip", and (9) an "async cache abstraction exposing
  get(key) ... plus set(key, value)". The store is a map from keys to payloads, together
  with the log of the fetches issued (the identifiers passed to \<open>getGroupPost\<close>).
\<close>

record 'r swr =
  cache :: "string \<rightharpoonup> 'r"
  fetches :: "int list"

definition swr_mutate :: "string \<Rightarrow> 'r \<Rightarrow> 'r swr \<Rightarrow> 'r swr" where
  "swr_mutate k v c = c\<lparr>cache := (cache c)(k \<mapsto> v)\<rparr>"

definition useSWR :: "string \<Rightarrow> (error + 'r) \<Rightarrow> int \<Rightarrow> 'r swr \<Rightarrow> (error + 'r) \<times> 'r swr" where
  \<comment> \<open>A read: the cached value when there is one, else one fetch whose value is cached.\<close>
  "useSWR k fetched i c =
     (case cache c k of
        Some v \<Rightarrow> (Inr v, c)
      | None \<Rightarrow>
          (case fetched of
             Inl e \<Rightarrow> (Inl e, c\<lparr>fetches := fetches c @ [i]\<rparr>)
           | Inr v \<Rightarrow> (Inr v, c\<lparr>cache := (cache c)(k \<mapsto> v), fetches := fetches c @ [i]\<rparr>)))"

text \<open>
  The hook of the source: it binds the key of \<open>id\<close> and the fetcher
  \<open>ok(ozaClient.getGroupPost(id))\<close> (whose outcome is \<open>getGroupPost i\<close>: a thrown error or
  the payload), and returns the data read and the mutator bound to the same key.
\<close>

definition useGroupPost ::
  "(int \<Rightarrow> error + 'r) \<Rightarrow> int \<Rightarrow> 'r swr \<Rightarrow> (error + 'r) \<times> 'r swr" where
  "useGroupPost getGroupPost i c = useSWR (useGroupPost_key i) (getGroupPost i) i c"

definition useGroupPost_mutate :: "int \<Rightarrow> 'r \<Rightarrow> 'r swr \<Rightarrow> 'r swr" where
  "useGroupPost_mutate i v c = swr_mutate (useGroupPost_key i) v c"

section \<open>GroupTopicHeader: the topic header view\<close>

text \<open>
  \<open>SlimUser\<close> and \<open>SlimGroup\<close> come from the API client; the header reads
  \<open>creator.avatar.large\<close>, \<open>creator.username\<close>, \<open>creator.nickname\<close>, \<open>parent.name\<close> and
  \<open>parent.title\<close>.
\<close>

record SlimUser =
  avatar_large :: string
  username :: string
  nickname :: string

record SlimGroup =
  group_name :: string
  group_title :: string

record ('u, 'g) Header =
  header_title :: string
  createdAt :: int
  creator :: "'u SlimUser_scheme"
  parent :: "'g SlimGroup_scheme"
  header_id :: int

datatype header_style = groupTopicHeader | headerMain | navBar | title_style

text \<open>
  The elements the header renders. \<open>Link\<close> has its target, its \<open>isExternal\<close> flag and its
  children; \<open>CommentInfo\<close> has \<open>createdAt\<close>, \<open>floor\<close> and \<open>id\<close>.
\<close>

datatype element =
    Text string
  | Avatar string string
  | Link string bool "element list"
  | CommentInfo int string int
  | Span "header_style option" "element list"
  | Div' "header_style option" "element list"
  | H1 header_style "element list"

definition posted_in :: string where
  "posted_in = [CHR 0xE5, CHR 0x8F, CHR 0x91, CHR 0xE8, CHR 0xA1, CHR 0xA8, CHR 0xE4, CHR 0xBA, CHR 0x8E]"

definition raquo :: string where
  "raquo = [CHR 0xC2, CHR 0xBB]"

definition group_forum :: string where
  "group_forum = [CHR 0xE7, CHR 0xBB, CHR 0x84, CHR 0xE5, CHR 0x86, CHR 0x85, CHR 0xE8, CHR 0xAE,
     CHR 0xA8, CHR 0xE8, CHR 0xAE, CHR 0xBA]"

text \<open>
  \<open>getUserProfileLink\<close> is imported from the utilities package and is not among the
  sources: it is a parameter of the view.
\<close>

definition GroupTopicHeader :: "(string \<Rightarrow> string) \<Rightarrow> ('u, 'g) Header \<Rightarrow> element" where
  "GroupTopicHeader getUserProfileLink h =
     Div' (Some groupTopicHeader)
       [Avatar (avatar_large (creator h)) ''medium'',
        Div' (Some headerMain)
          [Span (Some navBar)
             [Div' None
                [Link (getUserProfileLink (username (creator h))) True [Text (nickname (creator h))],
                 Span None [Text posted_in],
                 Link (''/group/'' @ group_name (parent h)) False [Text (group_title (parent h))],
                 Span None [Text raquo],
                 Link (''/group/'' @ group_name (parent h) @ ''/forum'') False [Text group_forum]],
              CommentInfo (createdAt h) ''1'' (header_id h)],
           H1 title_style [Text (header_title h)]]]"

fun comment_infos :: "element \<Rightarrow> (int \<times> string \<times> int) list" where
  "comment_infos (Text s) = []"
| "comment_infos (Avatar s z) = []"
| "comment_infos (Link t x cs) = concat (map comment_infos cs)"
| "comment_infos (CommentInfo c f i) = [(c, f, i)]"
| "comment_infos (Span s cs) = concat (map comment_infos cs)"
| "comment_infos (Div' s cs) = concat (map comment_infos cs)"
| "comment_infos (H1 s cs) = concat (map comment_infos cs)"

definition floors :: "element \<Rightarrow> string list" where
  \<comment> \<open>The \<open>floor\<close> of every \<open>CommentInfo\<close> element of a rendered tree.\<close>
  "floors v = map (\<lambda>(c, f, i). f) (comment_infos v)"

section \<open>Decimal rendering is injective\<close>

lemma digit_char_inj: "a < 10 \<Longrightarrow> b < 10 \<Longrightarrow> digit_char a = digit_char b \<Longrightarrow> a = b"
proof -
  assume a: "a < 10" and b: "b < 10" and e: "digit_char a = digit_char b"
  from e have "(of_char (char_of (48 + a)) :: nat) = of_char (char_of (48 + b))" by simp
  then have "(48 + a) mod 256 = (48 + b) mod 256" by (simp only: of_char_of)
  with a b show "a = b" by simp
qed

lemma decimal_not_Nil: "decimal n \<noteq> []"
  by (subst decimal.simps) simp

lemma decimal_inj: "decimal m = decimal n \<Longrightarrow> m = n"
proof (induction m arbitrary: n rule: decimal.induct)
  case (1 m)
  show ?case
  proof (cases "m < 10")
    case small_m: True
    show ?thesis
    proof (cases "n < 10")
      case True
      with small_m "1.prems" have "digit_char m = digit_char n"
        by (simp add: decimal.simps [of m] decimal.simps [of n])
      with small_m True show ?thesis by (rule digit_char_inj)
    next
      case False
      with small_m "1.prems" have "[digit_char m] = decimal (n div 10) @ [digit_char (n mod 10)]"
        by (simp add: decimal.simps [of m] decimal.simps [of n])
      then have "decimal (n div 10) = []" by simp
      then show ?thesis by (simp add: decimal_not_Nil)
    qed
  next
    case big_m: False
    show ?thesis
    proof (cases "n < 10")
      case True
      with big_m "1.prems" have "decimal (m div 10) @ [digit_char (m mod 10)] = [digit_char n]"
        by (simp add: decimal.simps [of m] decimal.simps [of n])
      then have "decimal (m div 10) = []" by simp
      then show ?thesis by (simp add: decimal_not_Nil)
    next
      case False
      with big_m "1.prems"
      have e: "decimal (m div 10) @ [digit_char (m mod 10)] = decimal (n div 10) @ [digit_char (n mod 10)]"
        by (simp add: decimal.simps [of m] decimal.simps [of n])
      then have "decimal (m div 10) = decimal (n div 10)" by simp
      with big_m have q: "m div 10 = n div 10" by (rule "1.IH")
      from e have "digit_char (m mod 10) = digit_char (n mod 10)" by simp
      then have r: "m mod 10 = n mod 10" by (intro digit_char_inj) simp_all
      from q r show ?thesis by (metis div_mult_mod_eq)
    qed
  qed
qed

lemma decimal_no_minus: "CHR ''-'' \<notin> set (decimal n)"
proof (induction n rule: decimal.induct)
  case (1 n)
  have d: "digit_char k \<noteq> CHR ''-''" if "k < 10" for k
  proof
    assume "digit_char k = CHR ''-''"
    then have "(of_char (char_of (48 + k)) :: nat) = of_char (CHR ''-'')" by simp
    then have "(48 + k) mod 256 = 45" by (simp only: of_char_of) simp
    with that show False by simp
  qed
  show ?case
  proof (cases "n < 10")
    case True
    then show ?thesis using d [of n] by (simp add: decimal.simps [of n])
  next
    case False
    then show ?thesis using "1.IH" d [of "n mod 10"] by (simp add: decimal.simps [of n])
  qed
qed

lemma number_toString_inj: "number_toString i = number_toString j \<Longrightarrow> i = j"
proof -
  assume e: "number_toString i = number_toString j"
  have m: "CHR ''-'' # xs \<noteq> decimal n" for xs n
    using decimal_no_minus [of n] by (metis list.set_intros(1))
  show "i = j"
  proof (cases "i < 0")
    case ni: True
    show ?thesis
    proof (cases "j < 0")
      case True
      with ni e have "decimal (nat (- i)) = decimal (nat (- j))" by (simp add: number_toString_def)
      then have "nat (- i) = nat (- j)" by (rule decimal_inj)
      with ni True show ?thesis by simp
    next
      case False
      with ni e m show ?thesis by (simp add: number_toString_def)
    qed
  next
    case pi: False
    show ?thesis
    proof (cases "j < 0")
      case True
      with pi e m [of "decimal (nat (- j))" "nat i"] show ?thesis by (simp add: number_toString_def)
    next
      case False
      with pi e have "decimal (nat i) = decimal (nat j)" by (simp add: number_toString_def)
      then have "nat i = nat j" by (rule decimal_inj)
      with pi False show ?thesis by simp
    qed
  qed
qed

lemma number_toString_42: "number_toString 42 = ''42''"
  by code_simp

lemma number_toString_7: "number_toString 7 = ''7''"
  by code_simp

section \<open>The submission handler, case by case\<close>

lemma FormData_eta:
  "\<lparr>title = title d, text' = text' d, cf_turnstile_response = cf_turnstile_response d\<rparr> = (d::FormData)"
  by simp

lemma sending_setSending: "sending (setSending b w) = b"
  by (simp add: setSending_def)

lemma postNewTopic_resolved:
  assumes "createNewGroupTopic E gn d = Inr r"
  shows "postNewTopic E d gn w =
     (None, w\<lparr>effects := effects w @ CreateNewGroupTopic gn d #
        (if status r = 200 then [Navigate (''/group/topic/'' @ number_toString (id' (data r)))]
         else [ConsoleError r, Toast (Some (message (data r)))])\<rparr>)"
  using assms by (simp add: postNewTopic_def Let_def FormData_eta emit_def navigate_def toast_def)

lemma postNewTopic_thrown:
  assumes "createNewGroupTopic E gn d = Inl e"
  shows "postNewTopic E d gn w = (Some e, w\<lparr>effects := effects w @ [CreateNewGroupTopic gn d]\<rparr>)"
  using assms by (simp add: postNewTopic_def Let_def FormData_eta emit_def)

lemma editTopic_resolved:
  assumes "editGroupTopic E i d = Inr r" and "topic p = Some t"
  shows "editTopic E p d i w =
     (None, w\<lparr>effects := effects w @ EditGroupTopic i d #
        (if status r = 200
         then [Mutate (t\<lparr>topic_title := title d, topic_text := text' d\<rparr>),
               Navigate (''/group/topic/'' @ number_toString i)]
         else [ConsoleError r, Toast (Some (message (data r)))])\<rparr>)"
  using assms by (simp add: editTopic_def Let_def FormData_eta emit_def navigate_def toast_def)

lemma editTopic_thrown:
  assumes "editGroupTopic E i d = Inl e"
  shows "editTopic E p d i w = (Some e, w\<lparr>effects := effects w @ [EditGroupTopic i d]\<rparr>)"
  using assms by (simp add: editTopic_def Let_def FormData_eta emit_def)

lemma onSubmit_execute_thrown:
  assumes "execute E = Inl e"
  shows "onSubmit E p d w = (Some e, w\<lparr>sending := True\<rparr>)"
  using assms by (simp add: onSubmit_def Let_def setSending_def)

lemma onSubmit_no_token:
  assumes "execute E = Inr token" and "\<not> truthy token"
  shows "onSubmit E p d w = (None, w\<lparr>sending := False\<rparr>)"
  using assms by (simp add: onSubmit_def Let_def setSending_def)

lemma onSubmit_create:
  assumes "execute E = Inr (Some tok)" and "tok \<noteq> []" and "groupName p = Some gn" and "gn \<noteq> []"
  shows "onSubmit E p d w =
     (case postNewTopic E d gn (setValue_token tok (setSending True w)) of
        (Some e, w3) \<Rightarrow> (Some e, w3) | (None, w3) \<Rightarrow> (None, setSending False w3))"
  using assms by (simp add: onSubmit_def Let_def truthy_def)

lemma onSubmit_edit:
  assumes "execute E = Inr (Some tok)" and "tok \<noteq> []" and "\<not> truthy (groupName p)" and "topic p = Some t"
  shows "onSubmit E p d w =
     (case editTopic E p d (topic_id t) (setValue_token tok (setSending True w)) of
        (Some e, w3) \<Rightarrow> (Some e, w3) | (None, w3) \<Rightarrow> (None, setSending False w3))"
  using assms by (simp add: onSubmit_def Let_def truthy_def)

lemma onSubmit_no_mode:
  assumes "execute E = Inr (Some tok)" and "tok \<noteq> []" and "\<not> truthy (groupName p)" and "topic p = None"
  shows "onSubmit E p d w = (None, setSending False (setValue_token tok (setSending True w)))"
  using assms by (simp add: onSubmit_def Let_def truthy_def)

section \<open>The token sent with a write\<close>

text \<open>
  C1 says that the write operation receives the freshly obtained token. \<open>onSubmit\<close>
  stores the fresh token with \<open>setValue\<close>, which writes the form state, and then hands its
  own argument \<open>data\<close> to \<open>postNewTopic\<close>, which reads \<open>cf-turnstile-response\<close> from that
  argument. With \<open>data\<close> carrying the token \<open>old\<close> of an earlier attempt and the challenge
  resolving to \<open>fresh\<close>, the create operation is called with \<open>old\<close>, while the form state
  ends up holding \<open>fresh\<close>.
\<close>

theorem onSubmit_sends_token_of_data:
  "onSubmit
     \<lparr>execute = Inr (Some ''fresh''),
      createNewGroupTopic = (\<lambda>gn b. Inr \<lparr>status = 200, data = \<lparr>id' = 42, message = []\<rparr>\<rparr>),
      editGroupTopic = (\<lambda>i b. Inr \<lparr>status = 200, data = \<lparr>id' = 0, message = []\<rparr>\<rparr>)\<rparr>
     \<lparr>quickPost = False, groupName = Some ''life'', topic = None :: TopicDetail option\<rparr>
     \<lparr>title = ''hello'', text' = ''world'', cf_turnstile_response = Some ''old''\<rparr>
     \<lparr>sending = False,
      form = \<lparr>title = ''hello'', text' = ''world'', cf_turnstile_response = Some ''old''\<rparr>,
      effects = []\<rparr>
   = (None,
      \<lparr>sending = False,
       form = \<lparr>title = ''hello'', text' = ''world'', cf_turnstile_response = Some ''fresh''\<rparr>,
       effects = [CreateNewGroupTopic ''life''
                    \<lparr>title = ''hello'', text' = ''world'', cf_turnstile_response = Some ''old''\<rparr>,
                  Navigate ''/group/topic/42'']\<rparr>)"
  by (simp add: onSubmit_create [where tok = "''fresh''" and gn = "''life''"] postNewTopic_resolved
      setSending_def setValue_token_def number_toString_42)

text \<open>
  The same through \<open>handleSubmit\<close>, from the state of a freshly mounted create form whose
  title and text have been typed in: the first submission (challenge token \<open>t1\<close>, rejected
  by the server with status 400) sends no token at all, and the second (challenge token
  \<open>t2\<close>) sends \<open>t1\<close>.
\<close>

lemma resubmission_sends_previous_token:
  "effects (snd (handleSubmit
     \<lparr>execute = Inr (Some ''t2''),
      createNewGroupTopic = (\<lambda>gn b. Inr \<lparr>status = 200, data = \<lparr>id' = 42, message = []\<rparr>\<rparr>),
      editGroupTopic = (\<lambda>i b. Inr \<lparr>status = 200, data = \<lparr>id' = 0, message = []\<rparr>\<rparr>)\<rparr>
     \<lparr>quickPost = False, groupName = Some ''life'', topic = None :: TopicDetail option\<rparr>
     (snd (handleSubmit
       \<lparr>execute = Inr (Some ''t1''),
        createNewGroupTopic = (\<lambda>gn b. Inr \<lparr>status = 400, data = \<lparr>id' = 0, message = ''no''\<rparr>\<rparr>),
        editGroupTopic = (\<lambda>i b. Inr \<lparr>status = 200, data = \<lparr>id' = 0, message = []\<rparr>\<rparr>)\<rparr>
       \<lparr>quickPost = False, groupName = Some ''life'', topic = None :: TopicDetail option\<rparr>
       ((useForm \<lparr>quickPost = False, groupName = Some ''life'', topic = None :: TopicDetail option\<rparr>)
          \<lparr>form := \<lparr>title = ''hello'', text' = ''world'', cf_turnstile_response = None\<rparr>\<rparr>)))))
   = [CreateNewGroupTopic ''life'' \<lparr>title = ''hello'', text' = ''world'', cf_turnstile_response = None\<rparr>,
      ConsoleError \<lparr>status = 400, data = \<lparr>id' = 0, message = ''no''\<rparr>\<rparr>,
      Toast (Some ''no''),
      CreateNewGroupTopic ''life'' \<lparr>title = ''hello'', text' = ''world'', cf_turnstile_response = Some ''t1''\<rparr>,
      Navigate ''/group/topic/42'']"
  by (simp add: handleSubmit_def validate_def required_def useForm_def
      onSubmit_create [where gn = "''life''"] postNewTopic_resolved
      setSending_def setValue_token_def number_toString_42)

section \<open>Create mode\<close>

text \<open>
  C2. In create mode (a non-empty \<open>groupName\<close>), once the challenge has resolved to a token
  and the create operation has answered with the response \<open>r\<close>: if \<open>r.status\<close> is 200 the
  only effect after the call is the navigation to \<open>/group/topic/{r.data.id}\<close>, with no
  toast; for any other status the response is logged and one toast shows exactly
  \<open>r.data.message\<close>, with no navigation.
\<close>

theorem create_mode_response:
  assumes "execute E = Inr (Some tok)" and "tok \<noteq> []"
    and "groupName p = Some gn" and "gn \<noteq> []"
    and "createNewGroupTopic E gn d = Inr r"
  shows "onSubmit E p d w =
     (None, \<lparr>sending = False,
             form = (form w)\<lparr>cf_turnstile_response := Some tok\<rparr>,
             effects = effects w @ CreateNewGroupTopic gn d #
               (if status r = 200
                then [Navigate (''/group/topic/'' @ number_toString (id' (data r)))]
                else [ConsoleError r, Toast (Some (message (data r)))])\<rparr>)"
  by (simp add: onSubmit_create [OF assms(1-4)] postNewTopic_resolved [OF assms(5)]
      setSending_def setValue_token_def)

text \<open>
  The create-mode success scenario of the spec: group \<open>life\<close>, title \<open>hello\<close>, text
  \<open>world\<close>, a response with status 200 and id 42.
\<close>

theorem create_mode_response_witness:
  "onSubmit
     \<lparr>execute = Inr (Some ''tok''),
      createNewGroupTopic = (\<lambda>gn b. Inr \<lparr>status = 200, data = \<lparr>id' = 42, message = []\<rparr>\<rparr>),
      editGroupTopic = (\<lambda>i b. Inl (Error ''unused''))\<rparr>
     \<lparr>quickPost = False, groupName = Some ''life'', topic = None :: TopicDetail option\<rparr>
     \<lparr>title = ''hello'', text' = ''world'', cf_turnstile_response = None\<rparr>
     \<lparr>sending = False,
      form = \<lparr>title = ''hello'', text' = ''world'', cf_turnstile_response = None\<rparr>,
      effects = []\<rparr>
   = (None,
      \<lparr>sending = False,
       form = \<lparr>title = ''hello'', text' = ''world'', cf_turnstile_response = Some ''tok''\<rparr>,
       effects = [CreateNewGroupTopic ''life''
                    \<lparr>title = ''hello'', text' = ''world'', cf_turnstile_response = None\<rparr>,
                  Navigate ''/group/topic/42'']\<rparr>)"
  using create_mode_response
    [of "\<lparr>execute = Inr (Some ''tok''),
      createNewGroupTopic = (\<lambda>gn b. Inr \<lparr>status = 200, data = \<lparr>id' = 42, message = []\<rparr>\<rparr>),
      editGroupTopic = (\<lambda>i b. Inl (Error ''unused''))\<rparr>"
      "''tok''"
      "\<lparr>quickPost = False, groupName = Some ''life'', topic = None :: TopicDetail option\<rparr>"
      "''life''"
      "\<lparr>title = ''hello'', text' = ''world'', cf_turnstile_response = None\<rparr>"
      "\<lparr>status = 200, data = \<lparr>id' = 42, message = []\<rparr>\<rparr>"
      "\<lparr>sending = False,
      form = \<lparr>title = ''hello'', text' = ''world'', cf_turnstile_response = None\<rparr>,
      effects = []\<rparr>"]
  by (simp add: number_toString_42)

section \<open>Edit mode\<close>

text \<open>
  C3. In edit mode (no usable \<open>groupName\<close>, a topic \<open>t\<close>), once the challenge has resolved
  to a token and the edit operation has answered with the response \<open>r\<close>: if \<open>r.status\<close> is
  200 the mutator is called exactly once, with \<open>t\<close> in which the title and the text are
  those submitted, the identifier and every other field are those of \<open>t\<close>, and no token
  occurs; the navigation to \<open>/group/topic/{id}\<close> follows. For any other status the
  response is logged and its message shown, with no call of the mutator and no navigation.
\<close>

theorem edit_mode_response:
  assumes "execute E = Inr (Some tok)" and "tok \<noteq> []"
    and "\<not> truthy (groupName p)" and "topic p = Some t"
    and "editGroupTopic E (topic_id t) d = Inr r"
  shows "onSubmit E p d w =
     (None, \<lparr>sending = False,
             form = (form w)\<lparr>cf_turnstile_response := Some tok\<rparr>,
             effects = effects w @ EditGroupTopic (topic_id t) d #
               (if status r = 200
                then [Mutate (t\<lparr>topic_title := title d, topic_text := text' d\<rparr>),
                      Navigate (''/group/topic/'' @ number_toString (topic_id t))]
                else [ConsoleError r, Toast (Some (message (data r)))])\<rparr>)
     \<and> topic_id (t\<lparr>topic_title := title d, topic_text := text' d\<rparr>) = topic_id t
     \<and> TopicDetail.more (t\<lparr>topic_title := title d, topic_text := text' d\<rparr>) = TopicDetail.more t"
  by (simp add: onSubmit_edit [OF assms(1-4)] editTopic_resolved [OF assms(5) assms(4)]
      setSending_def setValue_token_def)

text \<open>
  The edit-mode success scenario of the spec: topic 7 with title \<open>old\<close> and text
  \<open>old body\<close>, submitted title \<open>new\<close> and text \<open>new body\<close>, a response with status 200.
\<close>

theorem edit_mode_response_witness:
  "onSubmit
     \<lparr>execute = Inr (Some ''tok''),
      createNewGroupTopic = (\<lambda>gn b. Inl (Error ''unused'')),
      editGroupTopic = (\<lambda>i b. Inr \<lparr>status = 200, data = \<lparr>id' = 0, message = []\<rparr>\<rparr>)\<rparr>
     \<lparr>quickPost = False, groupName = None,
      topic = Some \<lparr>topic_id = 7, topic_title = ''old'', topic_text = ''old body''\<rparr>\<rparr>
     \<lparr>title = ''new'', text' = ''new body'', cf_turnstile_response = None\<rparr>
     \<lparr>sending = False,
      form = \<lparr>title = ''new'', text' = ''new body'', cf_turnstile_response = None\<rparr>,
      effects = []\<rparr>
   = (None,
      \<lparr>sending = False,
       form = \<lparr>title = ''new'', text' = ''new body'', cf_turnstile_response = Some ''tok''\<rparr>,
       effects = [EditGroupTopic 7
                    \<lparr>title = ''new'', text' = ''new body'', cf_turnstile_response = None\<rparr>,
                  Mutate \<lparr>topic_id = 7, topic_title = ''new'', topic_text = ''new body''\<rparr>,
                  Navigate ''/group/topic/7'']\<rparr>)"
  using edit_mode_response
    [of "\<lparr>execute = Inr (Some ''tok''),
      createNewGroupTopic = (\<lambda>gn b. Inl (Error ''unused'')),
      editGroupTopic = (\<lambda>i b. Inr \<lparr>status = 200, data = \<lparr>id' = 0, message = []\<rparr>\<rparr>)\<rparr>"
      "''tok''"
      "\<lparr>quickPost = False, groupName = None,
      topic = Some \<lparr>topic_id = 7, topic_title = ''old'', topic_text = ''old body''\<rparr>\<rparr>"
      "\<lparr>topic_id = 7, topic_title = ''old'', topic_text = ''old body''\<rparr>"
      "\<lparr>title = ''new'', text' = ''new body'', cf_turnstile_response = None\<rparr>"
      "\<lparr>status = 200, data = \<lparr>id' = 0, message = []\<rparr>\<rparr>"
      "\<lparr>sending = False,
      form = \<lparr>title = ''new'', text' = ''new body'', cf_turnstile_response = None\<rparr>,
      effects = []\<rparr>"]
  by (simp add: truthy_def number_toString_7)

section \<open>The sending flag\<close>

text \<open>
  C7. When the challenge resolves without a token (\<open>undefined\<close> or the empty string), the
  handler leaves the state as it found it, with the sending flag cleared: no write
  operation is called, nothing is shown, the form state is untouched.
\<close>

theorem no_token_no_submission:
  assumes "execute E = Inr token" and "\<not> truthy token"
  shows "onSubmit E p d w = (None, w\<lparr>sending := False\<rparr>)"
  using assms by (rule onSubmit_no_token)

theorem no_token_no_submission_witness:
  "onSubmit
     \<lparr>execute = Inr None,
      createNewGroupTopic = (\<lambda>gn b. Inr \<lparr>status = 200, data = \<lparr>id' = 42, message = []\<rparr>\<rparr>),
      editGroupTopic = (\<lambda>i b. Inr \<lparr>status = 200, data = \<lparr>id' = 0, message = []\<rparr>\<rparr>)\<rparr>
     \<lparr>quickPost = False, groupName = Some ''life'', topic = None :: TopicDetail option\<rparr>
     \<lparr>title = ''hello'', text' = ''world'', cf_turnstile_response = None\<rparr>
     \<lparr>sending = False,
      form = \<lparr>title = ''hello'', text' = ''world'', cf_turnstile_response = None\<rparr>,
      effects = []\<rparr>
   = (None,
      \<lparr>sending = False,
       form = \<lparr>title = ''hello'', text' = ''world'', cf_turnstile_response = None\<rparr>,
       effects = []\<rparr>)"
  using no_token_no_submission
    [of "\<lparr>execute = Inr None,
      createNewGroupTopic = (\<lambda>gn b. Inr \<lparr>status = 200, data = \<lparr>id' = 42, message = []\<rparr>\<rparr>),
      editGroupTopic = (\<lambda>i b. Inr \<lparr>status = 200, data = \<lparr>id' = 0, message = []\<rparr>\<rparr>)\<rparr>"
      None
      "\<lparr>quickPost = False, groupName = Some ''life'', topic = None :: TopicDetail option\<rparr>"
      "\<lparr>title = ''hello'', text' = ''world'', cf_turnstile_response = None\<rparr>"
      "\<lparr>sending = False,
      form = \<lparr>title = ''hello'', text' = ''world'', cf_turnstile_response = None\<rparr>,
      effects = []\<rparr>"]
  by (simp add: truthy_def)

text \<open>
  C6, as the code has it. The handler has no \<open>try\<close>/\<open>finally\<close>: \<open>setSending(false)\<close> is its
  last statement and runs when the awaited calls return. When neither the challenge nor a
  write operation throws (whether or not a token is obtained, and whatever the status of
  the response), the handler completes and the sending flag is cleared at its end.
\<close>

theorem sending_cleared_unless_thrown:
  assumes "execute E = Inr token"
    and "\<And>gn b. \<not> isl (createNewGroupTopic E gn b)"
    and "\<And>i b. \<not> isl (editGroupTopic E i b)"
  shows "fst (onSubmit E p d w) = None \<and> sending (snd (onSubmit E p d w)) = False"
proof (cases "truthy token")
  case False
  with assms(1) show ?thesis by (simp add: onSubmit_no_token)
next
  case True
  then obtain tok where tok: "token = Some tok" "tok \<noteq> []"
    by (cases token) (simp_all add: truthy_def)
  with assms(1) have ex: "execute E = Inr (Some tok)" by simp
  show ?thesis
  proof (cases "truthy (groupName p)")
    case True
    then obtain gn where gn: "groupName p = Some gn" "gn \<noteq> []"
      by (cases "groupName p") (simp_all add: truthy_def)
    from assms(2) [of gn d] obtain r where "createNewGroupTopic E gn d = Inr r"
      by (cases "createNewGroupTopic E gn d") simp_all
    then show ?thesis
      by (simp add: onSubmit_create [OF ex tok(2) gn] postNewTopic_resolved sending_setSending)
  next
    case no_group: False
    show ?thesis
    proof (cases "topic p")
      case None
      with ex tok(2) no_group show ?thesis
        by (simp add: onSubmit_no_mode sending_setSending)
    next
      case (Some t)
      from assms(3) [of "topic_id t" d] obtain r where "editGroupTopic E (topic_id t) d = Inr r"
        by (cases "editGroupTopic E (topic_id t) d") simp_all
      then show ?thesis
        by (simp add: onSubmit_edit [OF ex tok(2) no_group Some] editTopic_resolved [OF _ Some]
            sending_setSending)
    qed
  qed
qed

text \<open>The server-rejection scenario of the spec (status 400): the flag ends cleared.\<close>

theorem sending_cleared_unless_thrown_witness:
  "fst (onSubmit
     \<lparr>execute = Inr (Some ''tok''),
      createNewGroupTopic = (\<lambda>gn b. Inr \<lparr>status = 400, data = \<lparr>id' = 0, message = ''no''\<rparr>\<rparr>),
      editGroupTopic = (\<lambda>i b. Inr \<lparr>status = 200, data = \<lparr>id' = 0, message = []\<rparr>\<rparr>)\<rparr>
     \<lparr>quickPost = False, groupName = Some ''life'', topic = None :: TopicDetail option\<rparr>
     \<lparr>title = ''hello'', text' = ''world'', cf_turnstile_response = None\<rparr>
     \<lparr>sending = False,
      form = \<lparr>title = ''hello'', text' = ''world'', cf_turnstile_response = None\<rparr>,
      effects = []\<rparr>) = None
   \<and> sending (snd (onSubmit
     \<lparr>execute = Inr (Some ''tok''),
      createNewGroupTopic = (\<lambda>gn b. Inr \<lparr>status = 400, data = \<lparr>id' = 0, message = ''no''\<rparr>\<rparr>),
      editGroupTopic = (\<lambda>i b. Inr \<lparr>status = 200, data = \<lparr>id' = 0, message = []\<rparr>\<rparr>)\<rparr>
     \<lparr>quickPost = False, groupName = Some ''life'', topic = None :: TopicDetail option\<rparr>
     \<lparr>title = ''hello'', text' = ''world'', cf_turnstile_response = None\<rparr>
     \<lparr>sending = False,
      form = \<lparr>title = ''hello'', text' = ''world'', cf_turnstile_response = None\<rparr>,
      effects = []\<rparr>)) = False"
  using sending_cleared_unless_thrown
    [of "\<lparr>execute = Inr (Some ''tok''),
      createNewGroupTopic = (\<lambda>gn b. Inr \<lparr>status = 400, data = \<lparr>id' = 0, message = ''no''\<rparr>\<rparr>),
      editGroupTopic = (\<lambda>i b. Inr \<lparr>status = 200, data = \<lparr>id' = 0, message = []\<rparr>\<rparr>)\<rparr>"
      "Some ''tok''"
      "\<lparr>quickPost = False, groupName = Some ''life'', topic = None :: TopicDetail option\<rparr>"
      "\<lparr>title = ''hello'', text' = ''world'', cf_turnstile_response = None\<rparr>"
      "\<lparr>sending = False,
      form = \<lparr>title = ''hello'', text' = ''world'', cf_turnstile_response = None\<rparr>,
      effects = []\<rparr>"]
  by simp

text \<open>
  C6 as stated fails when the write operation throws (a rejected request): the handler is
  left at the \<open>await\<close>, and the sending flag stays set.
\<close>

theorem sending_stays_set_when_write_throws:
  "onSubmit
     \<lparr>execute = Inr (Some ''tok''),
      createNewGroupTopic = (\<lambda>gn b. Inl (Error ''Failed to fetch'')),
      editGroupTopic = (\<lambda>i b. Inl (Error ''Failed to fetch''))\<rparr>
     \<lparr>quickPost = False, groupName = Some ''life'', topic = None :: TopicDetail option\<rparr>
     \<lparr>title = ''hello'', text' = ''world'', cf_turnstile_response = None\<rparr>
     \<lparr>sending = False,
      form = \<lparr>title = ''hello'', text' = ''world'', cf_turnstile_response = None\<rparr>,
      effects = []\<rparr>
   = (Some (Error ''Failed to fetch''),
      \<lparr>sending = True,
       form = \<lparr>title = ''hello'', text' = ''world'', cf_turnstile_response = Some ''tok''\<rparr>,
       effects = [CreateNewGroupTopic ''life''
                    \<lparr>title = ''hello'', text' = ''world'', cf_turnstile_response = None\<rparr>]\<rparr>)"
  by (simp add: onSubmit_create [where tok = "''tok''" and gn = "''life''"] postNewTopic_thrown
      setSending_def setValue_token_def)

section \<open>The usage check of the component\<close>

text \<open>
  C4, as the code has it. The check is on truthiness, so an empty \<open>groupName\<close> counts as
  absent. When \<open>groupName\<close> is a non-empty string and \<open>topic\<close> is given, or when neither
  is, \<open>TopicForm\<close> throws its usage error and returns no view; when exactly one of the two
  holds it throws nothing and returns a view.
\<close>

theorem TopicForm_usage:
  "if truthy (groupName p) = (topic p \<noteq> None)
   then TopicForm p w = Inl (Error ''Invalid usage: should specify either groupName or topic'')
   else (\<exists>v. TopicForm p w = Inr v)"
  by (auto simp add: TopicForm_def invalid_usage_def)

text \<open>
  C4 as stated fails for an empty \<open>groupName\<close> supplied alone: exactly one of the two
  arguments is supplied, and the component throws.
\<close>

theorem TopicForm_empty_groupName_throws:
  "groupName \<lparr>quickPost = False, groupName = Some [], topic = None :: TopicDetail option\<rparr> \<noteq> None
   \<and> topic \<lparr>quickPost = False, groupName = Some [], topic = None :: TopicDetail option\<rparr> = None
   \<and> TopicForm \<lparr>quickPost = False, groupName = Some [], topic = None :: TopicDetail option\<rparr>
        (useForm \<lparr>quickPost = False, groupName = Some [], topic = None :: TopicDetail option\<rparr>)
      = Inl (Error ''Invalid usage: should specify either groupName or topic'')"
  by (simp add: TopicForm_def invalid_usage_def truthy_def)

section \<open>Validation\<close>

text \<open>
  C5. A submission with an empty title or an empty text calls no write operation and
  changes nothing but for one toast, which shows the first validation error: the message
  of the title when the title is empty, else the message of the text.
\<close>

theorem missing_field_aborts:
  assumes "title (form w) = [] \<or> text' (form w) = []"
  shows "handleSubmit E p w =
     (None, w\<lparr>effects := effects w @
        [Toast (Some (if title (form w) = [] then required_title else required_text))]\<rparr>)"
  using assms
  by (auto simp add: handleSubmit_def validate_def required_def showErrors_def toast_def emit_def)

text \<open>An empty title with the text \<open>world\<close>: the message of the title, and no write.\<close>

theorem missing_field_aborts_witness:
  "handleSubmit
     \<lparr>execute = Inr (Some ''tok''),
      createNewGroupTopic = (\<lambda>gn b. Inr \<lparr>status = 200, data = \<lparr>id' = 42, message = []\<rparr>\<rparr>),
      editGroupTopic = (\<lambda>i b. Inr \<lparr>status = 200, data = \<lparr>id' = 0, message = []\<rparr>\<rparr>)\<rparr>
     \<lparr>quickPost = False, groupName = Some ''life'', topic = None :: TopicDetail option\<rparr>
     \<lparr>sending = False,
      form = \<lparr>title = [], text' = ''world'', cf_turnstile_response = None\<rparr>,
      effects = []\<rparr>
   = (None,
      \<lparr>sending = False,
       form = \<lparr>title = [], text' = ''world'', cf_turnstile_response = None\<rparr>,
       effects = [Toast (Some [CHR 0xE8, CHR 0xAF, CHR 0xB7, CHR 0xE5, CHR 0xA1, CHR 0xAB, CHR 0xE5,
         CHR 0x86, CHR 0x99, CHR 0xE6, CHR 0xA0, CHR 0x87, CHR 0xE9, CHR 0xA2, CHR 0x98])]\<rparr>)"
  using missing_field_aborts
    [of "\<lparr>sending = False,
      form = \<lparr>title = [], text' = ''world'', cf_turnstile_response = None\<rparr>,
      effects = []\<rparr>"
      "\<lparr>execute = Inr (Some ''tok''),
      createNewGroupTopic = (\<lambda>gn b. Inr \<lparr>status = 200, data = \<lparr>id' = 42, message = []\<rparr>\<rparr>),
      editGroupTopic = (\<lambda>i b. Inr \<lparr>status = 200, data = \<lparr>id' = 0, message = []\<rparr>\<rparr>)\<rparr>"
      "\<lparr>quickPost = False, groupName = Some ''life'', topic = None :: TopicDetail option\<rparr>"]
  by (simp add: required_title_def)

text \<open>A title with an empty text: the message of the text.\<close>

lemma missing_text_message:
  "effects (snd (handleSubmit E p
     \<lparr>sending = False,
      form = \<lparr>title = ''hello'', text' = [], cf_turnstile_response = None\<rparr>,
      effects = []\<rparr>))
   = [Toast (Some [CHR 0xE8, CHR 0xAF, CHR 0xB7, CHR 0xE5, CHR 0xA1, CHR 0xAB, CHR 0xE5, CHR 0x86,
        CHR 0x99, CHR 0xE6, CHR 0xAD, CHR 0xA3, CHR 0xE6, CHR 0x96, CHR 0x87, CHR 0xE5, CHR 0x86,
        CHR 0x85, CHR 0xE5, CHR 0xAE, CHR 0xB9])]"
  by (simp add: handleSubmit_def validate_def required_def showErrors_def toast_def emit_def
      required_text_def)

section \<open>The thread data source\<close>

lemma useGroupPost_key_inj: "useGroupPost_key i = useGroupPost_key j \<Longrightarrow> i = j"
  by (simp add: useGroupPost_key_def number_toString_inj)

text \<open>
  C8. Two distinct identifiers have distinct cache keys. After the mutator of identifier
  \<open>i\<close> is called with \<open>v\<close>, a read for \<open>i\<close> yields \<open>v\<close> and issues no fetch, and a read for
  another identifier \<open>j\<close> yields what it yielded before.
\<close>

theorem cache_keyed_by_identifier:
  assumes "i \<noteq> j"
  shows "useGroupPost_key i \<noteq> useGroupPost_key j
    \<and> fst (useGroupPost g i (useGroupPost_mutate i v c)) = Inr v
    \<and> fetches (snd (useGroupPost g i (useGroupPost_mutate i v c))) = fetches c
    \<and> fst (useGroupPost g j (useGroupPost_mutate i v c)) = fst (useGroupPost g j c)"
proof -
  from assms have k: "useGroupPost_key i \<noteq> useGroupPost_key j"
    using useGroupPost_key_inj by blast
  then show ?thesis
    by (auto simp add: useGroupPost_def useGroupPost_mutate_def swr_mutate_def useSWR_def
        split: option.splits sum.splits)
qed

theorem cache_keyed_by_identifier_witness:
  "useGroupPost_key 1 \<noteq> useGroupPost_key 2
    \<and> fst (useGroupPost (\<lambda>n. Inr ''fetched'') 1
             (useGroupPost_mutate 1 ''injected'' \<lparr>cache = Map.empty, fetches = []\<rparr>)) = Inr ''injected''
    \<and> fetches (snd (useGroupPost (\<lambda>n. Inr ''fetched'') 1
             (useGroupPost_mutate 1 ''injected'' \<lparr>cache = Map.empty, fetches = []\<rparr>))) = []
    \<and> fst (useGroupPost (\<lambda>n. Inr ''fetched'') 2
             (useGroupPost_mutate 1 ''injected'' \<lparr>cache = Map.empty, fetches = []\<rparr>))
        = fst (useGroupPost (\<lambda>n. Inr ''fetched'') 2 \<lparr>cache = Map.empty, fetches = []\<rparr>)"
  using cache_keyed_by_identifier
    [of 1 2 "\<lambda>n. Inr ''fetched''" "''injected''" "\<lparr>cache = Map.empty, fetches = []\<rparr>"]
  by simp

section \<open>The topic header\<close>

text \<open>
  C10. Whatever its inputs, the header renders exactly one \<open>CommentInfo\<close> element, and
  the floor it passes to it is the constant \<open>1\<close>.
\<close>

theorem header_floor_is_one: "floors (GroupTopicHeader getUserProfileLink h) = [''1'']"
  by (simp add: floors_def GroupTopicHeader_def)

end
